theory Spec2Isabelle
  imports Main "HOL-Library.Sublist" "HOL-Library.Log_Nat"
begin

section \<open>The workflow diagram configuration\<close>

text \<open>
  The element type identifiers are string constants of the module
  \<^verbatim>\<open>./util/model-types\<close> (imported as \<^verbatim>\<open>types\<close>) and of the protocol's
  \<^verbatim>\<open>DefaultTypes\<close>. The configuration only names them, so they are parameters here:
  one record field for every constant the configuration reads.
\<close>

record ModelTypes =
  LABEL_HEADING :: string
  LABEL_TEXT :: string
  COMP_HEADER :: string
  LABEL_ICON :: string
  WEIGHTED_EDGE :: string
  ICON :: string
  ACTIVITY_NODE :: string
  TASK :: string
  CATEGORY :: string
  STRUCTURE :: string
  MANUAL_TASK :: string
  AUTOMATED_TASK :: string
  FORK_NODE :: string
  JOIN_NODE :: string
  DECISION_NODE :: string
  MERGE_NODE :: string

record DefaultTypes =
  EDGE :: string

text \<open>
  The classes a type identifier is mapped to. The configuration names six of them; the
  map that \<^verbatim>\<open>getDefaultMapping()\<close> supplies may hold any other class of the graph
  library.
\<close>

datatype GModelElementConstructor =
    GLabel | GCompartment | GEdge | ActivityNode | TaskNode | Category
  | GraphClass string

type_synonym TypeMap = "string \<rightharpoonup> GModelElementConstructor"

record TypeHint =
  elementTypeId :: string
  repositionable :: bool
  deletable :: bool

record ShapeTypeHint = TypeHint +
  resizable :: bool
  reparentable :: bool
  containableElementTypeIds :: "string list option"

record EdgeTypeHint = TypeHint +
  routable :: bool
  sourceElementTypeIds :: "string list"
  targetElementTypeIds :: "string list"

definition createDefaultShapeTypeHint :: "string \<Rightarrow> ShapeTypeHint" where
  "createDefaultShapeTypeHint elementId =
     \<lparr>elementTypeId = elementId, repositionable = True, deletable = True,
      resizable = True, reparentable = True, containableElementTypeIds = None\<rparr>"

definition createDefaultEdgeTypeHint :: "ModelTypes \<Rightarrow> string \<Rightarrow> EdgeTypeHint" where
  "createDefaultEdgeTypeHint types elementId =
     \<lparr>elementTypeId = elementId, repositionable = True, deletable = True,
      routable = True,
      sourceElementTypeIds =
        [MANUAL_TASK types, AUTOMATED_TASK types, DECISION_NODE types, MERGE_NODE types,
         FORK_NODE types, JOIN_NODE types, CATEGORY types],
      targetElementTypeIds =
        [MANUAL_TASK types, AUTOMATED_TASK types, DECISION_NODE types, MERGE_NODE types,
         FORK_NODE types, JOIN_NODE types, CATEGORY types]\<rparr>"

text \<open>
  The ten \<^verbatim>\<open>mapping.set(key, class)\<close> calls of the \<^verbatim>\<open>typeMapping\<close> getter, in the
  order of the source, applied to the contents of a map. A later \<^verbatim>\<open>set\<close> of the same
  key replaces the earlier entry, as map update does.
\<close>

definition typeMapping_sets :: "ModelTypes \<Rightarrow> TypeMap \<Rightarrow> TypeMap" where
  "typeMapping_sets types mapping =
     mapping(LABEL_HEADING types \<mapsto> GLabel,
             LABEL_TEXT types \<mapsto> GLabel,
             COMP_HEADER types \<mapsto> GCompartment,
             LABEL_ICON types \<mapsto> GLabel,
             WEIGHTED_EDGE types \<mapsto> GEdge,
             ICON types \<mapsto> GCompartment,
             ACTIVITY_NODE types \<mapsto> ActivityNode,
             TASK types \<mapsto> TaskNode,
             CATEGORY types \<mapsto> Category,
             STRUCTURE types \<mapsto> GCompartment)"

text \<open>The array literal that the \<^verbatim>\<open>shapeTypeHints\<close> getter returns.\<close>

definition shapeTypeHints_literal :: "ModelTypes \<Rightarrow> ShapeTypeHint list" where
  "shapeTypeHints_literal types =
     [createDefaultShapeTypeHint (MANUAL_TASK types),
      createDefaultShapeTypeHint (AUTOMATED_TASK types),
      createDefaultShapeTypeHint (FORK_NODE types),
      createDefaultShapeTypeHint (JOIN_NODE types),
      createDefaultShapeTypeHint (DECISION_NODE types),
      createDefaultShapeTypeHint (MERGE_NODE types),
      \<lparr>elementTypeId = CATEGORY types, repositionable = True, deletable = True,
       resizable = True, reparentable = True,
       containableElementTypeIds =
         Some [DECISION_NODE types, MERGE_NODE types, FORK_NODE types, JOIN_NODE types,
               AUTOMATED_TASK types, MANUAL_TASK types, CATEGORY types]\<rparr>]"

text \<open>The array literal that the \<^verbatim>\<open>edgeTypeHints\<close> getter returns.\<close>

definition edgeTypeHints_literal :: "ModelTypes \<Rightarrow> DefaultTypes \<Rightarrow> EdgeTypeHint list" where
  "edgeTypeHints_literal types dt =
     [createDefaultEdgeTypeHint types (EDGE dt),
      \<lparr>elementTypeId = WEIGHTED_EDGE types, repositionable = True, deletable = True,
       routable = True,
       sourceElementTypeIds = [DECISION_NODE types],
       targetElementTypeIds =
         [MANUAL_TASK types, AUTOMATED_TASK types, FORK_NODE types, JOIN_NODE types]\<rparr>]"

subsection \<open>Objects and their identity\<close>

text \<open>
  A JavaScript \<^verbatim>\<open>Map\<close> and an array are objects: a getter hands out a reference, and
  two references are identical when they are the same address. The store is the list of
  the objects allocated so far; a reference is an index into it, and \<open>new\<close> appends.
  An array object holds its hints by value: the claims compare the arrays, not the
  hint objects inside them.
\<close>

datatype obj =
    MapObj TypeMap
  | ShapeHintsObj "ShapeTypeHint list"
  | EdgeHintsObj "EdgeTypeHint list"

type_synonym ref = nat
type_synonym store = "obj list"

definition new :: "obj \<Rightarrow> store \<Rightarrow> ref \<times> store" where
  "new ob st = (length st, st @ [ob])"

text \<open>
  A run of \<^verbatim>\<open>set\<close> calls on the map object behind a reference. The reference comes
  from \<^verbatim>\<open>getDefaultMapping(): Map<...>\<close>, so it addresses a map of the store; on any
  other reference the store is left as it is.
\<close>

definition update_map :: "ref \<Rightarrow> (TypeMap \<Rightarrow> TypeMap) \<Rightarrow> store \<Rightarrow> store" where
  "update_map r f st =
     (if r < length st
      then (case st ! r of MapObj m \<Rightarrow> st[r := MapObj (f m)] | _ \<Rightarrow> st)
      else st)"

text \<open>
  The three getters. \<^verbatim>\<open>getDefaultMapping\<close> belongs to the graph library and is a
  parameter: a function that returns a reference to a map and the store it leaves.
\<close>

definition typeMapping ::
  "ModelTypes \<Rightarrow> (store \<Rightarrow> ref \<times> store) \<Rightarrow> store \<Rightarrow> ref \<times> store" where
  "typeMapping types getDefaultMapping st =
     (let (mapping, st1) = getDefaultMapping st
      in (mapping, update_map mapping (typeMapping_sets types) st1))"

definition shapeTypeHints :: "ModelTypes \<Rightarrow> store \<Rightarrow> ref \<times> store" where
  "shapeTypeHints types st = new (ShapeHintsObj (shapeTypeHints_literal types)) st"

definition edgeTypeHints :: "ModelTypes \<Rightarrow> DefaultTypes \<Rightarrow> store \<Rightarrow> ref \<times> store" where
  "edgeTypeHints types dt st = new (EdgeHintsObj (edgeTypeHints_literal types dt)) st"

text \<open>The identifiers that the shape and edge type hints declare, in the order of the getters.\<close>

definition declaredTypeIds :: "ModelTypes \<Rightarrow> DefaultTypes \<Rightarrow> string list" where
  "declaredTypeIds types dt =
     map elementTypeId (shapeTypeHints_literal types) @
     map elementTypeId (edgeTypeHints_literal types dt)"

text \<open>The ten keys that the \<^verbatim>\<open>typeMapping\<close> getter sets.\<close>

definition typeMapping_keys :: "ModelTypes \<Rightarrow> string set" where
  "typeMapping_keys types =
     {LABEL_HEADING types, LABEL_TEXT types, COMP_HEADER types, LABEL_ICON types,
      WEIGHTED_EDGE types, ICON types, ACTIVITY_NODE types, TASK types, CATEGORY types,
      STRUCTURE types}"

text \<open>
  Concrete values for the parameters, used where a statement is evaluated: the
  identifiers of the workflow example and a default mapping with the graph library's
  base types.
\<close>

definition workflowTypes :: ModelTypes where
  "workflowTypes =
     \<lparr>LABEL_HEADING = ''label:heading'', LABEL_TEXT = ''label:text'',
      COMP_HEADER = ''comp:header'', LABEL_ICON = ''label:icon'',
      WEIGHTED_EDGE = ''edge:weighted'', ICON = ''icon'',
      ACTIVITY_NODE = ''activityNode'', TASK = ''task'', CATEGORY = ''category'',
      STRUCTURE = ''struct'', MANUAL_TASK = ''task:manual'',
      AUTOMATED_TASK = ''task:automated'', FORK_NODE = ''activityNode:fork'',
      JOIN_NODE = ''activityNode:join'', DECISION_NODE = ''activityNode:decision'',
      MERGE_NODE = ''activityNode:merge''\<rparr>"

definition defaultTypes :: DefaultTypes where
  "defaultTypes = \<lparr>EDGE = ''edge''\<rparr>"

definition defaultMapping :: TypeMap where
  "defaultMapping =
     [''graph'' \<mapsto> GraphClass ''GGraph'', ''node'' \<mapsto> GraphClass ''GNode'',
      ''edge'' \<mapsto> GEdge, ''port'' \<mapsto> GraphClass ''GPort'', ''label'' \<mapsto> GLabel,
      ''comp'' \<mapsto> GCompartment]"

definition freshDefaultMapping :: "store \<Rightarrow> ref \<times> store" where
  "freshDefaultMapping st = new (MapObj defaultMapping) st"

section \<open>The model submission handler\<close>

subsection \<open>Data\<close>

text \<open>
  A JavaScript \<^verbatim>\<open>number\<close> is an IEEE 754 double: not a number, an infinity, or a finite
  value. Every finite double is a whole multiple of \<^verbatim>\<open>2^(-1074)\<close>, so \<open>Finite N\<close> stands
  for the value \<^verbatim>\<open>N * 2^(-1074)\<close>; the doubles are the \<open>Finite N\<close> where \<open>N\<close> has at most
  53 significant bits and a magnitude below \<^verbatim>\<open>2^2098\<close>. The two zeros are one value here:
  neither \<^verbatim>\<open>+ 1\<close> nor \<^verbatim>\<open>=== 0\<close> tells them apart.
\<close>

datatype number = NaN | PosInfinity | NegInfinity | Finite int

text \<open>\<^verbatim>\<open>N / 2^s\<close> rounded to the nearest integer, a tie going to the even one.\<close>

definition round_half_even :: "int \<Rightarrow> nat \<Rightarrow> int" where
  "round_half_even N s =
     (let d = 2 ^ s; q = N div d; r = N mod d
      in if 2 * r < d then q
         else if d < 2 * r then q + 1
         else if even q then q else q + 1)"

text \<open>
  The exact value \<^verbatim>\<open>N * 2^(-1074)\<close> rounded to a double, to nearest with ties to even:
  a value of at most 53 bits is kept, a longer one is rounded to its 53 leading bits,
  and a result of magnitude \<^verbatim>\<open>2^1024\<close> or more is an infinity.
\<close>

definition round_double :: "int \<Rightarrow> number" where
  "round_double N =
     (if \<bar>N\<bar> < 2 ^ 53 then Finite N
      else let s = nat (bitlen \<bar>N\<bar> - 53); M = round_half_even N s * 2 ^ s
           in if 2 ^ 2098 \<le> \<bar>M\<bar> then (if N < 0 then NegInfinity else PosInfinity)
              else Finite M)"

text \<open>The operator \<^verbatim>\<open>+\<close> on two numbers.\<close>

fun js_add :: "number \<Rightarrow> number \<Rightarrow> number" where
  "js_add NaN _ = NaN"
| "js_add _ NaN = NaN"
| "js_add PosInfinity NegInfinity = NaN"
| "js_add NegInfinity PosInfinity = NaN"
| "js_add PosInfinity _ = PosInfinity"
| "js_add _ PosInfinity = PosInfinity"
| "js_add NegInfinity _ = NegInfinity"
| "js_add _ NegInfinity = NegInfinity"
| "js_add (Finite a) (Finite b) = round_double (a + b)"

text \<open>
  The number with the integer value \<open>n\<close>. The literals \<^verbatim>\<open>0\<close> and \<^verbatim>\<open>1\<close> of the source
  are \<open>int_number 0\<close> and \<open>int_number 1\<close>.
\<close>

definition int_number :: "int \<Rightarrow> number" where
  "int_number n = Finite (n * 2 ^ 1074)"

text \<open>
  \<^verbatim>\<open>revision?: number\<close> is absent or a number. The extension part of each record
  stands for the fields the handler never reads or writes.
\<close>

record GModelRoot =
  revision :: "number option"

record 'a ModelState =
  root :: "'a GModelRoot_scheme"

text \<open>The serialized root; the handler reads its \<^verbatim>\<open>revision\<close> and nothing else.\<close>

record GModelRootSchema =
  schema_revision :: "number option"

datatype ServerLayoutKind = AUTOMATIC | MANUAL | NONE

datatype MarkersReason = BATCH | LIVE

record DiagramConfiguration =
  layoutKind :: ServerLayoutKind
  needsClientLayout :: bool
  animatedUpdate :: bool

text \<open>The three instance fields of \<^verbatim>\<open>WorkflowDiagramConfiguration\<close>.\<close>

definition WorkflowDiagramConfiguration :: DiagramConfiguration where
  "WorkflowDiagramConfiguration =
     \<lparr>layoutKind = MANUAL, needsClientLayout = True, animatedUpdate = True\<rparr>"

text \<open>
  The actions the handler creates, each with the arguments its \<^verbatim>\<open>create\<close> receives.
  \<open>'s\<close> is the serialized root, \<open>'m\<close> a marker; a \<^verbatim>\<open>DirtyStateChangeReason\<close> is a
  string, and the optional \<^verbatim>\<open>reason\<close> may be absent.
\<close>

datatype ('s, 'm) Action =
    RequestBoundsAction 's
  | SetDirtyStateAction bool "string option"
  | SetModelAction 's
  | UpdateModelAction 's bool
  | SetMarkersAction "'m list" MarkersReason

fun kind :: "('s, 'm) Action \<Rightarrow> string" where
  "kind (RequestBoundsAction _) = ''requestBounds''"
| "kind (SetDirtyStateAction _ _) = ''setDirtyState''"
| "kind (SetModelAction _) = ''setModel''"
| "kind (UpdateModelAction _ _) = ''updateModel''"
| "kind (SetMarkersAction _ _) = ''setMarkers''"

subsection \<open>Calls into the framework\<close>

text \<open>
  The handler's collaborators are injected framework services. A call to one of them runs
  code that is not the handler's: it may raise, and it may change the model state. So a
  call is a function from the state before it to its outcome (\<open>Inl\<close> the value raised,
  \<open>Inr\<close> the value returned) and the state after it. A call whose result is awaited
  returns a \<^verbatim>\<open>MaybePromise\<close>: the outcome of the \<^verbatim>\<open>await\<close> and the state at the
  moment the method resumes, which includes whatever ran while it was suspended.
\<close>

type_synonym ('e, 'st, 'a) call = "'st \<Rightarrow> ('e + 'a) \<times> 'st"
type_synonym ('e, 'st, 'a) MaybePromise = "('e, 'st, 'a) call"

record ('e, 'st, 'r, 's) GModelSerializer =
  createSchema :: "'r \<Rightarrow> ('e, 'st, 's) call"

record ('e, 'st) GModelFactory =
  createModel :: "('e, 'st, unit) call"

record ('e, 'st) LayoutEngine =
  layout :: "('e, 'st, ('e, 'st, unit) MaybePromise) call"

record ('e, 'st) CommandStack =
  isDirty :: "('e, 'st, bool) call"

record ('e, 'st, 'r, 'm) ModelValidator =
  validate :: "'r list \<Rightarrow> MarkersReason \<Rightarrow> ('e, 'st, ('e, 'st, 'm list) MaybePromise) call"

text \<open>
  The injected fields of the class. \<^verbatim>\<open>layoutEngine\<close> and \<^verbatim>\<open>validator\<close> are optional
  bindings. The field \<^verbatim>\<open>modelState\<close> is the state that the methods below run on.
\<close>

record ('e, 'a, 'b, 's, 'm) ModelSubmissionHandler =
  diagramConfiguration :: DiagramConfiguration
  serializer ::
    "('e, ('a, 'b) ModelState_scheme, 'a GModelRoot_scheme, 's GModelRootSchema_scheme)
       GModelSerializer"
  modelFactory :: "('e, ('a, 'b) ModelState_scheme) GModelFactory"
  layoutEngine :: "('e, ('a, 'b) ModelState_scheme) LayoutEngine option"
  commandStack :: "('e, ('a, 'b) ModelState_scheme) CommandStack"
  validator :: "('e, ('a, 'b) ModelState_scheme, 'a GModelRoot_scheme, 'm) ModelValidator option"

subsection \<open>Runs\<close>

text \<open>
  A run of a method threads the model state and a log of what the method did with the
  framework: every call it made, every value a call raised, every result it awaited.
\<close>

datatype service = CreateModel | CreateSchema | Layout | Validate | IsDirty

datatype 'e event = Invoke service | Raise service 'e | Await service

type_synonym ('e, 'st, 'a) run = "'st \<times> 'e event list \<Rightarrow> ('e + 'a) \<times> 'st \<times> 'e event list"

definition ret :: "'a \<Rightarrow> ('e, 'st, 'a) run" where
  "ret a w = (Inr a, w)"

text \<open>Sequencing: a raised value ends the run; there is no handler to catch it.\<close>

definition bnd :: "('e, 'st, 'a) run \<Rightarrow> ('a \<Rightarrow> ('e, 'st, 'b) run) \<Rightarrow> ('e, 'st, 'b) run" where
  "bnd m f w = (case m w of (Inl e, w') \<Rightarrow> (Inl e, w') | (Inr a, w') \<Rightarrow> f a w')"

definition invoke :: "service \<Rightarrow> ('e, 'st, 'a) call \<Rightarrow> ('e, 'st, 'a) run" where
  "invoke c f w =
     (case w of (s, t) \<Rightarrow>
        (case f s of
           (Inl e, s') \<Rightarrow> (Inl e, s', t @ [Invoke c, Raise c e])
         | (Inr a, s') \<Rightarrow> (Inr a, s', t @ [Invoke c])))"

definition settle :: "service \<Rightarrow> ('e, 'st, 'a) MaybePromise \<Rightarrow> ('e, 'st, 'a) run" where
  "settle c p w =
     (case w of (s, t) \<Rightarrow>
        (case p s of
           (Inl e, s') \<Rightarrow> (Inl e, s', t @ [Await c, Raise c e])
         | (Inr a, s') \<Rightarrow> (Inr a, s', t @ [Await c])))"

text \<open>\<^verbatim>\<open>await f()\<close>: the call, then the suspension on what it returned.\<close>

definition await :: "service \<Rightarrow> ('e, 'st, ('e, 'st, 'a) MaybePromise) call \<Rightarrow> ('e, 'st, 'a) run" where
  "await c f = bnd (invoke c f) (settle c)"

definition assign :: "('st \<Rightarrow> 'st) \<Rightarrow> ('e, 'st, unit) run" where
  "assign g w = (case w of (s, t) \<Rightarrow> (Inr (), g s, t))"

definition read :: "('st \<Rightarrow> 'a) \<Rightarrow> ('e, 'st, 'a) run" where
  "read g w = (case w of (s, t) \<Rightarrow> (Inr (g s), s, t))"

subsection \<open>The methods\<close>

text \<open>\<^verbatim>\<open>this.modelState.root.revision = (this.modelState.root.revision ?? 0) + 1\<close>\<close>

definition increment_revision :: "('a, 'b) ModelState_scheme \<Rightarrow> ('a, 'b) ModelState_scheme" where
  "increment_revision s =
     s\<lparr>root := (root s)\<lparr>revision :=
        Some (js_add (case revision (root s) of None \<Rightarrow> int_number 0 | Some r \<Rightarrow> r)
                (int_number 1))\<rparr>\<rparr>"

definition serializeGModel ::
  "('e, 'a, 'b, 's, 'm) ModelSubmissionHandler \<Rightarrow>
   ('e, ('a, 'b) ModelState_scheme, 's GModelRootSchema_scheme) run" where
  "serializeGModel this =
     bnd (read root) (\<lambda>r. invoke CreateSchema (createSchema (serializer this) r))"

definition submitModel ::
  "('e, 'a, 'b, 's, 'm) ModelSubmissionHandler \<Rightarrow> string option \<Rightarrow>
   ('e, ('a, 'b) ModelState_scheme, ('s GModelRootSchema_scheme, 'm) Action list) run" where
  "submitModel this reason =
     bnd (invoke CreateModel (createModel (modelFactory this))) (\<lambda>_.
     bnd (assign increment_revision) (\<lambda>_.
     bnd (serializeGModel this) (\<lambda>rt.
     if needsClientLayout (diagramConfiguration this)
     then bnd (invoke IsDirty (isDirty (commandStack this))) (\<lambda>dirty.
          ret [RequestBoundsAction rt, SetDirtyStateAction dirty reason])
     else ret [SetModelAction rt])))"

definition submitModelDirectly ::
  "('e, 'a, 'b, 's, 'm) ModelSubmissionHandler \<Rightarrow> string option \<Rightarrow>
   ('e, ('a, 'b) ModelState_scheme, ('s GModelRootSchema_scheme, 'm) Action list) run" where
  "submitModelDirectly this reason =
     bnd (serializeGModel this) (\<lambda>rt.
     bnd (case (layoutKind (diagramConfiguration this) = AUTOMATIC, layoutEngine this) of
            (True, Some engine) \<Rightarrow> await Layout (layout engine)
          | _ \<Rightarrow> ret ()) (\<lambda>_.
     bnd (ret [if schema_revision rt = Some (int_number 0)
               then SetModelAction rt
               else UpdateModelAction rt (animatedUpdate (diagramConfiguration this))])
       (\<lambda>result1.
     bnd (if \<not> needsClientLayout (diagramConfiguration this)
          then bnd (invoke IsDirty (isDirty (commandStack this))) (\<lambda>dirty.
               ret (result1 @ [SetDirtyStateAction dirty reason]))
          else ret result1) (\<lambda>result2.
     case validator this of
       Some v \<Rightarrow>
         bnd (read root) (\<lambda>r.
         bnd (await Validate (validate v [r] LIVE)) (\<lambda>markers.
         ret (result2 @ [SetMarkersAction markers LIVE])))
     | None \<Rightarrow> ret result2))))"

text \<open>What a run from state \<open>s\<close> returns or raises, the state it leaves, and its log.\<close>

definition outcome :: "('e + 'a) \<times> 'st \<times> 'e event list \<Rightarrow> 'e + 'a" where
  "outcome r = fst r"

definition final_state :: "('e + 'a) \<times> 'st \<times> 'e event list \<Rightarrow> 'st" where
  "final_state r = fst (snd r)"

definition events :: "('e + 'a) \<times> 'st \<times> 'e event list \<Rightarrow> 'e event list" where
  "events r = snd (snd r)"

fun awaited :: "'e event list \<Rightarrow> service list" where
  "awaited [] = []"
| "awaited (Await c # t) = c # awaited t"
| "awaited (_ # t) = awaited t"

fun invoked :: "'e event list \<Rightarrow> service list" where
  "invoked [] = []"
| "invoked (Invoke c # t) = c # invoked t"
| "invoked (_ # t) = invoked t"

fun raised :: "'e event list \<Rightarrow> 'e list" where
  "raised [] = []"
| "raised (Raise c e # t) = e # raised t"
| "raised (_ # t) = raised t"

subsection \<open>Frame conditions and a concrete handler\<close>

text \<open>
  A call preserves a property of the model state when the state it leaves has the
  property whenever the state it started from has it; for an awaited call this covers
  both the call and the state at the moment the method resumes.
\<close>

definition preserves :: "('st \<Rightarrow> bool) \<Rightarrow> ('e, 'st, 'a) call \<Rightarrow> bool" where
  "preserves P f \<longleftrightarrow> (\<forall>s. P s \<longrightarrow> P (snd (f s)))"

definition preserves_awaited ::
  "('st \<Rightarrow> bool) \<Rightarrow> ('e, 'st, ('e, 'st, 'a) MaybePromise) call \<Rightarrow> bool" where
  "preserves_awaited P f \<longleftrightarrow>
     (\<forall>s. P s \<longrightarrow> P (snd (f s)) \<and> (\<forall>p. fst (f s) = Inr p \<longrightarrow> P (snd (p (snd (f s))))))"

definition run_preserves :: "('st \<Rightarrow> bool) \<Rightarrow> ('e, 'st, 'a) run \<Rightarrow> bool" where
  "run_preserves P m \<longleftrightarrow> (\<forall>s t. P s \<longrightarrow> P (final_state (m (s, t))))"

text \<open>Every service other than the model factory preserves the property.\<close>

definition services_preserve ::
  "(('a, 'b) ModelState_scheme \<Rightarrow> bool) \<Rightarrow> ('e, 'a, 'b, 's, 'm) ModelSubmissionHandler \<Rightarrow> bool"
  where
  "services_preserve P this \<longleftrightarrow>
     (\<forall>r. preserves P (createSchema (serializer this) r)) \<and>
     preserves P (isDirty (commandStack this)) \<and>
     (\<forall>engine. layoutEngine this = Some engine \<longrightarrow> preserves_awaited P (layout engine)) \<and>
     (\<forall>v rs reason. validator this = Some v \<longrightarrow> preserves_awaited P (validate v rs reason))"

text \<open>
  A handler with services that never raise and leave the model state alone: the
  serializer copies the revision, the command stack is dirty, the layout engine and the
  validator are bound on request, and the validator reports one marker.
\<close>

definition plainHandler ::
  "DiagramConfiguration \<Rightarrow> bool \<Rightarrow> bool \<Rightarrow> (string, unit, unit, unit, string) ModelSubmissionHandler"
  where
  "plainHandler config withLayoutEngine withValidator =
     \<lparr>diagramConfiguration = config,
      serializer = \<lparr>createSchema = (\<lambda>r s. (Inr \<lparr>schema_revision = revision r\<rparr>, s))\<rparr>,
      modelFactory = \<lparr>createModel = (\<lambda>s. (Inr (), s))\<rparr>,
      layoutEngine =
        (if withLayoutEngine then Some \<lparr>layout = (\<lambda>s. (Inr (\<lambda>s'. (Inr (), s')), s))\<rparr>
         else None),
      commandStack = \<lparr>isDirty = (\<lambda>s. (Inr True, s))\<rparr>,
      validator =
        (if withValidator
         then Some \<lparr>validate = (\<lambda>rs reason s. (Inr (\<lambda>s'. (Inr [''marker''], s')), s))\<rparr>
         else None)\<rparr>"

text \<open>A configuration with server layout and without client layout.\<close>

definition automaticConfiguration :: DiagramConfiguration where
  "automaticConfiguration =
     \<lparr>layoutKind = AUTOMATIC, needsClientLayout = False, animatedUpdate = True\<rparr>"

text \<open>The same handler with a serializer that raises.\<close>

definition failingHandler ::
  "DiagramConfiguration \<Rightarrow> (string, unit, unit, unit, string) ModelSubmissionHandler" where
  "failingHandler config =
     (plainHandler config True True)
       \<lparr>serializer := \<lparr>createSchema = (\<lambda>r s. (Inl ''cannot serialize'', s))\<rparr>\<rparr>"

text \<open>The same handler with a model factory that raises.\<close>

definition raisingFactoryHandler ::
  "DiagramConfiguration \<Rightarrow> (string, unit, unit, unit, string) ModelSubmissionHandler" where
  "raisingFactoryHandler config =
     (plainHandler config True True)
       \<lparr>modelFactory := \<lparr>createModel = (\<lambda>s. (Inl ''cannot create'', s))\<rparr>\<rparr>"

definition stateWithRevision :: "number option \<Rightarrow> unit ModelState" where
  "stateWithRevision n = \<lparr>root = \<lparr>revision = n\<rparr>\<rparr>"

section \<open>Properties of the configuration\<close>

lemma dom_typeMapping_sets:
  "dom (typeMapping_sets types mapping) = dom mapping \<union> typeMapping_keys types"
  by (auto simp: typeMapping_sets_def typeMapping_keys_def)

lemma declaredTypeIds_eq:
  "declaredTypeIds types dt =
     [MANUAL_TASK types, AUTOMATED_TASK types, FORK_NODE types, JOIN_NODE types,
      DECISION_NODE types, MERGE_NODE types, CATEGORY types, EDGE dt, WEIGHTED_EDGE types]"
  by (simp add: declaredTypeIds_def shapeTypeHints_literal_def edgeTypeHints_literal_def
      createDefaultShapeTypeHint_def createDefaultEdgeTypeHint_def)

lemma typeMapping_on_map:
  assumes "getDefaultMapping st = (r, st1)" and "r < length st1" and "st1 ! r = MapObj m"
  shows "typeMapping types getDefaultMapping st = (r, st1[r := MapObj (typeMapping_sets types m)])"
  using assms by (simp add: typeMapping_def update_map_def)

lemma freshDefaultMapping_empty:
  "freshDefaultMapping [] = (0, [MapObj defaultMapping])"
  by (simp add: freshDefaultMapping_def new_def)

lemma workflow_sets_MANUAL_TASK:
  "typeMapping_sets workflowTypes defaultMapping ''task:manual'' = None"
  by (simp add: typeMapping_sets_def workflowTypes_def defaultMapping_def)

text \<open>
  C4, as stated, fails: two successive reads of \<^verbatim>\<open>shapeTypeHints\<close> on the same
  instance, starting from the empty store, return two different references.
\<close>

theorem shapeTypeHints_not_identical:
  "fst (shapeTypeHints workflowTypes []) \<noteq>
   fst (shapeTypeHints workflowTypes (snd (shapeTypeHints workflowTypes [])))"
  by (simp add: shapeTypeHints_def new_def)

text \<open>
  C4, amended. The hint lists and the type mapping are built at every access. Two
  successive reads of \<^verbatim>\<open>shapeTypeHints\<close> (and likewise of \<^verbatim>\<open>edgeTypeHints\<close>) return two
  different, newly allocated arrays with equal contents, namely the declared list, and
  leave every object that existed before as it was. A read of \<^verbatim>\<open>typeMapping\<close> returns
  the map object that \<^verbatim>\<open>getDefaultMapping()\<close> returned at that read, with the ten
  entries set on it, and changes no other object.
\<close>

theorem getters_build_at_every_access:
  "(case shapeTypeHints types st of (r1, st1) \<Rightarrow>
      (case shapeTypeHints types st1 of (r2, st2) \<Rightarrow>
         r1 = length st \<and> r2 = length st1 \<and> r1 \<noteq> r2 \<and>
         st2 ! r1 = ShapeHintsObj (shapeTypeHints_literal types) \<and>
         st2 ! r2 = ShapeHintsObj (shapeTypeHints_literal types) \<and>
         take (length st) st2 = st)) \<and>
   (case edgeTypeHints types dt st of (r1, st1) \<Rightarrow>
      (case edgeTypeHints types dt st1 of (r2, st2) \<Rightarrow>
         r1 = length st \<and> r2 = length st1 \<and> r1 \<noteq> r2 \<and>
         st2 ! r1 = EdgeHintsObj (edgeTypeHints_literal types dt) \<and>
         st2 ! r2 = EdgeHintsObj (edgeTypeHints_literal types dt) \<and>
         take (length st) st2 = st)) \<and>
   (\<forall>r st1 m. getDefaultMapping st = (r, st1) \<and> r < length st1 \<and> st1 ! r = MapObj m \<longrightarrow>
      typeMapping types getDefaultMapping st =
        (r, st1[r := MapObj (typeMapping_sets types m)]))"
proof (intro conjI allI impI)
  show "case shapeTypeHints types st of (r1, st1) \<Rightarrow>
      (case shapeTypeHints types st1 of (r2, st2) \<Rightarrow>
         r1 = length st \<and> r2 = length st1 \<and> r1 \<noteq> r2 \<and>
         st2 ! r1 = ShapeHintsObj (shapeTypeHints_literal types) \<and>
         st2 ! r2 = ShapeHintsObj (shapeTypeHints_literal types) \<and>
         take (length st) st2 = st)"
    by (simp add: shapeTypeHints_def new_def nth_append)
  show "case edgeTypeHints types dt st of (r1, st1) \<Rightarrow>
      (case edgeTypeHints types dt st1 of (r2, st2) \<Rightarrow>
         r1 = length st \<and> r2 = length st1 \<and> r1 \<noteq> r2 \<and>
         st2 ! r1 = EdgeHintsObj (edgeTypeHints_literal types dt) \<and>
         st2 ! r2 = EdgeHintsObj (edgeTypeHints_literal types dt) \<and>
         take (length st) st2 = st)"
    by (simp add: edgeTypeHints_def new_def nth_append)
next
  fix r st1 m
  assume "getDefaultMapping st = (r, st1) \<and> r < length st1 \<and> st1 ! r = MapObj m"
  then show "typeMapping types getDefaultMapping st =
        (r, st1[r := MapObj (typeMapping_sets types m)])"
    by (simp add: typeMapping_on_map)
qed

theorem getters_build_at_every_access_witness:
  "freshDefaultMapping [] = (0, [MapObj defaultMapping]) \<and>
   (0::nat) < length [MapObj defaultMapping] \<and>
   [MapObj defaultMapping] ! 0 = MapObj defaultMapping \<and>
   typeMapping workflowTypes freshDefaultMapping [] =
     (0, [MapObj (typeMapping_sets workflowTypes defaultMapping)]) \<and>
   shapeTypeHints workflowTypes [] = (0, [ShapeHintsObj (shapeTypeHints_literal workflowTypes)]) \<and>
   shapeTypeHints workflowTypes [ShapeHintsObj (shapeTypeHints_literal workflowTypes)] =
     (1, [ShapeHintsObj (shapeTypeHints_literal workflowTypes),
          ShapeHintsObj (shapeTypeHints_literal workflowTypes)])"
  using getters_build_at_every_access
    [where types = workflowTypes and st = "[]" and dt = defaultTypes
       and getDefaultMapping = freshDefaultMapping]
  by (simp add: freshDefaultMapping_empty shapeTypeHints_def new_def)

text \<open>
  C5, as stated, fails: with the identifiers of the workflow example and the graph
  library's base types as the default mapping, MANUAL_TASK is declared by a shape type
  hint and the map that \<^verbatim>\<open>typeMapping\<close> returns has no entry under it.
\<close>

theorem typeMapping_lacks_MANUAL_TASK:
  "MANUAL_TASK workflowTypes \<in> set (declaredTypeIds workflowTypes defaultTypes) \<and>
   snd (typeMapping workflowTypes freshDefaultMapping []) !
     fst (typeMapping workflowTypes freshDefaultMapping []) =
       MapObj (typeMapping_sets workflowTypes defaultMapping) \<and>
   typeMapping_sets workflowTypes defaultMapping (MANUAL_TASK workflowTypes) = None"
proof -
  have "MANUAL_TASK workflowTypes = ''task:manual''"
    by (simp add: workflowTypes_def)
  moreover have "typeMapping workflowTypes freshDefaultMapping [] =
      (0, [MapObj (typeMapping_sets workflowTypes defaultMapping)])"
    by (rule typeMapping_on_map[where getDefaultMapping = freshDefaultMapping and st = "[]"
          and r = 0 and ?st1.0 = "[MapObj defaultMapping]" and m = defaultMapping, simplified])
       (simp_all add: freshDefaultMapping_empty)
  ultimately show ?thesis
    by (simp add: declaredTypeIds_eq workflow_sets_MANUAL_TASK)
qed

text \<open>
  C5, amended. The keys of the map that \<^verbatim>\<open>typeMapping\<close> returns are the keys of the
  map that \<^verbatim>\<open>getDefaultMapping()\<close> supplied together with the ten keys the getter sets
  (LABEL_HEADING, LABEL_TEXT, COMP_HEADER, LABEL_ICON, WEIGHTED_EDGE, ICON,
  ACTIVITY_NODE, TASK, CATEGORY, STRUCTURE). So WEIGHTED_EDGE and CATEGORY always have
  an entry, and any other declared identifier has one exactly when the default mapping
  has one or the identifier equals one of the ten keys.
\<close>

theorem typeMapping_entries:
  "getDefaultMapping st = (r, st1) \<and> r < length st1 \<and> st1 ! r = MapObj m \<longrightarrow>
   (\<exists>m'. snd (typeMapping types getDefaultMapping st) !
            fst (typeMapping types getDefaultMapping st) = MapObj m' \<and>
      dom m' = dom m \<union> typeMapping_keys types \<and>
      WEIGHTED_EDGE types \<in> dom m' \<and> CATEGORY types \<in> dom m' \<and>
      (\<forall>i \<in> set (declaredTypeIds types dt).
         i \<in> dom m' \<longleftrightarrow> i \<in> dom m \<or> i \<in> typeMapping_keys types))"
proof
  assume a: "getDefaultMapping st = (r, st1) \<and> r < length st1 \<and> st1 ! r = MapObj m"
  then have tm: "typeMapping types getDefaultMapping st =
      (r, st1[r := MapObj (typeMapping_sets types m)])"
    by (simp add: typeMapping_on_map)
  from a have "snd (typeMapping types getDefaultMapping st) !
      fst (typeMapping types getDefaultMapping st) = MapObj (typeMapping_sets types m)"
    unfolding tm by simp
  moreover have "WEIGHTED_EDGE types \<in> typeMapping_keys types"
    and "CATEGORY types \<in> typeMapping_keys types"
    by (simp_all add: typeMapping_keys_def)
  ultimately show "\<exists>m'. snd (typeMapping types getDefaultMapping st) !
            fst (typeMapping types getDefaultMapping st) = MapObj m' \<and>
      dom m' = dom m \<union> typeMapping_keys types \<and>
      WEIGHTED_EDGE types \<in> dom m' \<and> CATEGORY types \<in> dom m' \<and>
      (\<forall>i \<in> set (declaredTypeIds types dt).
         i \<in> dom m' \<longleftrightarrow> i \<in> dom m \<or> i \<in> typeMapping_keys types)"
    by (intro exI[of _ "typeMapping_sets types m"]) (simp add: dom_typeMapping_sets)
qed

theorem typeMapping_entries_witness:
  "freshDefaultMapping [] = (0, [MapObj defaultMapping]) \<and>
   (0::nat) < length [MapObj defaultMapping] \<and>
   [MapObj defaultMapping] ! 0 = MapObj defaultMapping \<and>
   (\<exists>m'. snd (typeMapping workflowTypes freshDefaultMapping []) !
            fst (typeMapping workflowTypes freshDefaultMapping []) = MapObj m' \<and>
      dom m' = dom defaultMapping \<union> typeMapping_keys workflowTypes \<and>
      ''edge:weighted'' \<in> dom m' \<and> ''category'' \<in> dom m')"
proof -
  have h: "freshDefaultMapping [] = (0, [MapObj defaultMapping]) \<and>
      (0::nat) < length [MapObj defaultMapping] \<and>
      [MapObj defaultMapping] ! 0 = MapObj defaultMapping"
    by (simp add: freshDefaultMapping_empty)
  from typeMapping_entries
    [where getDefaultMapping = freshDefaultMapping and st = "[]" and r = 0
       and ?st1.0 = "[MapObj defaultMapping]" and m = defaultMapping
       and types = workflowTypes and dt = defaultTypes, THEN mp, OF h]
  obtain m' where "snd (typeMapping workflowTypes freshDefaultMapping []) !
            fst (typeMapping workflowTypes freshDefaultMapping []) = MapObj m'"
    and "dom m' = dom defaultMapping \<union> typeMapping_keys workflowTypes"
    and "WEIGHTED_EDGE workflowTypes \<in> dom m'" and "CATEGORY workflowTypes \<in> dom m'"
    by blast
  then have "snd (typeMapping workflowTypes freshDefaultMapping []) !
            fst (typeMapping workflowTypes freshDefaultMapping []) = MapObj m' \<and>
      dom m' = dom defaultMapping \<union> typeMapping_keys workflowTypes \<and>
      ''edge:weighted'' \<in> dom m' \<and> ''category'' \<in> dom m'"
    by (simp add: workflowTypes_def)
  with h show ?thesis by blast
qed

text \<open>
  C6. The array that the \<^verbatim>\<open>edgeTypeHints\<close> getter returns holds two hints. The first
  is the hint for \<^verbatim>\<open>DefaultTypes.EDGE\<close>; its source list and its target list are both
  the seven identifiers MANUAL_TASK, AUTOMATED_TASK, DECISION_NODE, MERGE_NODE,
  FORK_NODE, JOIN_NODE, CATEGORY. The second is the hint for WEIGHTED_EDGE; its source
  list is [DECISION_NODE] and its target list is [MANUAL_TASK, AUTOMATED_TASK,
  FORK_NODE, JOIN_NODE].
\<close>

theorem edgeTypeHints_source_target:
  "\<exists>hs. snd (edgeTypeHints types dt st) ! fst (edgeTypeHints types dt st) = EdgeHintsObj hs \<and>
     map (\<lambda>h. (elementTypeId h, sourceElementTypeIds h, targetElementTypeIds h)) hs =
       [(EDGE dt,
         [MANUAL_TASK types, AUTOMATED_TASK types, DECISION_NODE types, MERGE_NODE types,
          FORK_NODE types, JOIN_NODE types, CATEGORY types],
         [MANUAL_TASK types, AUTOMATED_TASK types, DECISION_NODE types, MERGE_NODE types,
          FORK_NODE types, JOIN_NODE types, CATEGORY types]),
        (WEIGHTED_EDGE types,
         [DECISION_NODE types],
         [MANUAL_TASK types, AUTOMATED_TASK types, FORK_NODE types, JOIN_NODE types])]"
  by (simp add: edgeTypeHints_def new_def edgeTypeHints_literal_def
      createDefaultEdgeTypeHint_def)

section \<open>Properties of the model submission handler\<close>

subsection \<open>Numbers\<close>

lemma round_half_even_dvd: "2 ^ s dvd N \<Longrightarrow> round_half_even N s * 2 ^ s = N"
  by (auto simp: round_half_even_def Let_def)

text \<open>An integer of magnitude at most \<^verbatim>\<open>2^53\<close> is a double: rounding keeps it.\<close>

lemma round_double_exact:
  assumes "\<bar>n\<bar> \<le> 2 ^ 53"
  shows "round_double (n * 2 ^ 1074) = Finite (n * 2 ^ 1074)"
proof (cases "n = 0")
  case True
  then show ?thesis by (simp add: round_double_def)
next
  case False
  define a where "a = \<bar>n\<bar>"
  define N where "N = n * 2 ^ 1074"
  have a: "0 < a" "a \<le> 2 ^ 53" using False assms by (auto simp: a_def)
  have absN: "\<bar>N\<bar> = a * 2 ^ 1074" by (simp add: a_def N_def abs_mult del: power_numeral)
  have bl: "bitlen \<bar>N\<bar> = bitlen a + 1074"
    unfolding absN using bitlen_pow2[OF a(1), of 1074] by (simp del: power_numeral)
  have "a < 2 ^ nat 54" using a(2) by simp
  then have b54: "bitlen a \<le> 54" by (simp add: bitlen_le_iff_power del: power_numeral)
  define s where "s = nat (bitlen \<bar>N\<bar> - 53)"
  have dvd: "(2::int) ^ s dvd N"
  proof (cases "bitlen a \<le> 53")
    case True
    then have "s \<le> 1074" by (simp add: s_def bl)
    then have "(2::int) ^ s dvd 2 ^ 1074" by (rule le_imp_power_dvd)
    then show ?thesis unfolding N_def by (rule dvd_mult)
  next
    case False
    with b54 have eq: "bitlen a = 54" by simp
    then have "54 \<le> bitlen a" by simp
    then have "2 ^ 53 \<le> a" by (simp add: bitlen_ge_iff_power del: power_numeral)
    with a have a53: "a = 2 ^ 53" by simp
    have s: "s = 1075" by (simp add: s_def bl eq)
    have "(2::int) ^ 1075 dvd 2 ^ (53 + 1074)"
      by (rule le_imp_power_dvd) simp
    then have "(2::int) ^ 1075 dvd a * 2 ^ 1074" by (simp only: a53 power_add)
    then have "(2::int) ^ 1075 dvd \<bar>N\<bar>" by (simp only: absN)
    then show ?thesis by (simp only: s dvd_abs_iff)
  qed
  have lt: "\<bar>N\<bar> < 2 ^ 2098"
  proof -
    have "a * 2 ^ 1074 \<le> 2 ^ 53 * (2::int) ^ 1074"
      using a(2) by (intro mult_right_mono) (simp_all del: power_numeral)
    also have "\<dots> = 2 ^ (53 + 1074)" by (simp only: power_add)
    also have "\<dots> < (2::int) ^ 2098" by (rule power_strict_increasing) simp_all
    finally show ?thesis by (simp only: absN)
  qed
  have ge: "\<not> \<bar>N\<bar> < 2 ^ 53"
  proof -
    have "(2::int) ^ 53 \<le> 1 * 2 ^ 1074"
      by (simp only: mult_1) (rule power_increasing, simp_all)
    also have "\<dots> \<le> a * 2 ^ 1074"
      using a(1) by (intro mult_right_mono) (simp_all del: power_numeral)
    finally show ?thesis by (simp only: absN not_less)
  qed
  have "round_double N = Finite N"
    unfolding round_double_def Let_def s_def[symmetric]
    using round_half_even_dvd[OF dvd] lt ge by (simp del: power_numeral)
  then show ?thesis by (simp only: N_def)
qed

lemma js_add_int_number:
  "\<bar>m + n\<bar> \<le> 2 ^ 53 \<Longrightarrow> js_add (int_number m) (int_number n) = int_number (m + n)"
  using round_double_exact[of "m + n"]
  by (simp add: int_number_def distrib_right del: power_numeral)

lemma int_number_eq_iff: "int_number m = int_number n \<longleftrightarrow> m = n"
  by (simp add: int_number_def del: power_numeral)

lemma js_add_2_53:
  "js_add (int_number 9007199254740992) (int_number 1) = int_number 9007199254740992"
  by code_simp

lemmas number_simps = js_add_int_number int_number_eq_iff js_add_2_53


lemmas run_defs = ret_def bnd_def invoke_def settle_def await_def assign_def read_def
  serializeGModel_def outcome_def final_state_def events_def

lemmas plain_defs = plainHandler_def failingHandler_def raisingFactoryHandler_def
  stateWithRevision_def WorkflowDiagramConfiguration_def automaticConfiguration_def
  number_simps

subsection \<open>Runs of \<^verbatim>\<open>submitModel\<close>, step by step\<close>

lemma submitModel_run:
  assumes cm: "createModel (modelFactory this) s = (r1, s1)"
    and cs: "createSchema (serializer this) (root (increment_revision s1)) (increment_revision s1)
               = (r2, s2)"
    and d: "isDirty (commandStack this) s2 = (r3, s3)"
  shows "submitModel this reason (s, t) =
    (case r1 of
       Inl e \<Rightarrow> (Inl e, s1, t @ [Invoke CreateModel, Raise CreateModel e])
     | Inr u \<Rightarrow>
        (case r2 of
           Inl e \<Rightarrow> (Inl e, s2, t @ [Invoke CreateModel, Invoke CreateSchema, Raise CreateSchema e])
         | Inr rt \<Rightarrow>
            if needsClientLayout (diagramConfiguration this)
            then (case r3 of
                    Inl e \<Rightarrow> (Inl e, s3, t @ [Invoke CreateModel, Invoke CreateSchema,
                                              Invoke IsDirty, Raise IsDirty e])
                  | Inr dirty \<Rightarrow>
                      (Inr [RequestBoundsAction rt, SetDirtyStateAction dirty reason], s3,
                       t @ [Invoke CreateModel, Invoke CreateSchema, Invoke IsDirty]))
            else (Inr [SetModelAction rt], s2, t @ [Invoke CreateModel, Invoke CreateSchema])))"
  using cm cs d
  by (cases r1; cases r2; cases r3; simp add: submitModel_def run_defs)

lemma kinds_submitModel:
  assumes "outcome (submitModel this reason (s, [])) = Inr acts"
  shows "map kind acts =
     (if needsClientLayout (diagramConfiguration this)
      then [''requestBounds'', ''setDirtyState''] else [''setModel''])"
proof -
  obtain r1 s1 where cm: "createModel (modelFactory this) s = (r1, s1)"
    by (cases "createModel (modelFactory this) s")
  obtain r2 s2 where
    cs: "createSchema (serializer this) (root (increment_revision s1)) (increment_revision s1)
               = (r2, s2)"
    by (cases "createSchema (serializer this) (root (increment_revision s1)) (increment_revision s1)")
  obtain r3 s3 where d: "isDirty (commandStack this) s2 = (r3, s3)"
    by (cases "isDirty (commandStack this) s2")
  from assms show ?thesis
    unfolding submitModel_run[OF cm cs d] outcome_def
    by (cases r1; cases r2; cases r3; cases "needsClientLayout (diagramConfiguration this)")
       auto
qed

lemma kinds_submitModelDirectly:
  "outcome (submitModelDirectly this reason (s, [])) = Inr acts \<Longrightarrow>
   createSchema (serializer this) (root s) s = (Inr rt, s') \<Longrightarrow>
   map kind acts =
     (if schema_revision rt = Some (int_number 0) then ''setModel'' else ''updateModel'') #
     (if needsClientLayout (diagramConfiguration this) then [] else [''setDirtyState'']) @
     (if validator this = None then [] else [''setMarkers''])"
  apply (cases "layoutKind (diagramConfiguration this) = AUTOMATIC"; cases "layoutEngine this";
      cases "validator this"; cases "needsClientLayout (diagramConfiguration this)")
  apply (auto simp add: submitModelDirectly_def run_defs split: prod.splits sum.splits)
  done


subsection \<open>Frame lemmas\<close>

lemma run_preservesD: "run_preserves P m \<Longrightarrow> P s \<Longrightarrow> P (final_state (m (s, t)))"
  by (simp add: run_preserves_def)

lemma run_preserves_ret: "run_preserves P (ret a)"
  by (simp add: run_preserves_def ret_def final_state_def)

lemma run_preserves_read: "run_preserves P (read g)"
  by (simp add: run_preserves_def read_def final_state_def)

lemma run_preserves_bnd:
  assumes "run_preserves P m" and "\<And>a. run_preserves P (f a)"
  shows "run_preserves P (bnd m f)"
  unfolding run_preserves_def
proof (intro allI impI)
  fix s t assume Ps: "P s"
  obtain r s' t' where m: "m (s, t) = (r, s', t')" by (cases "m (s, t)") auto
  from run_preservesD[OF assms(1) Ps, of t] m have Ps': "P s'" by (simp add: final_state_def)
  show "P (final_state (bnd m f (s, t)))"
  proof (cases r)
    case (Inl e)
    with m Ps' show ?thesis by (simp add: bnd_def final_state_def)
  next
    case (Inr a)
    from assms(2)[of a] Ps' have "P (final_state (f a (s', t')))"
      by (rule run_preservesD)
    with m Inr show ?thesis by (simp add: bnd_def)
  qed
qed

lemma run_preserves_invoke: "preserves P f \<Longrightarrow> run_preserves P (invoke c f)"
  by (auto simp: run_preserves_def preserves_def invoke_def final_state_def
      split: prod.splits sum.splits)

lemma run_preserves_await: "preserves_awaited P f \<Longrightarrow> run_preserves P (await c f)"
  unfolding run_preserves_def preserves_awaited_def
  apply (intro allI impI)
  subgoal for s t
    apply (erule allE[of _ s])
    apply (cases "f s")
    subgoal for r s'
      apply (cases r)
       apply (simp add: await_def bnd_def invoke_def final_state_def)
      subgoal for p
        apply (cases "p s'")
        apply (auto simp: await_def bnd_def invoke_def settle_def final_state_def split: sum.splits)
        done
      done
    done
  done

lemma run_preserves_serializeGModel:
  "services_preserve P this \<Longrightarrow> run_preserves P (serializeGModel this)"
  unfolding serializeGModel_def
  by (intro run_preserves_bnd run_preserves_read run_preserves_invoke)
     (simp add: services_preserve_def)

lemma run_preserves_layout_step:
  assumes "services_preserve P this"
  shows "run_preserves P
      (case (layoutKind (diagramConfiguration this) = AUTOMATIC, layoutEngine this) of
         (True, Some engine) \<Rightarrow> await Layout (layout engine)
       | _ \<Rightarrow> ret ())"
proof (cases "layoutEngine this")
  case None
  then show ?thesis by (simp add: run_preserves_ret split: bool.split)
next
  case (Some engine)
  with assms have "preserves_awaited P (layout engine)"
    by (simp add: services_preserve_def)
  then have "run_preserves P (await Layout (layout engine))"
    by (rule run_preserves_await)
  with Some show ?thesis by (simp add: run_preserves_ret split: bool.split)
qed

lemma run_preserves_dirty_step:
  assumes "services_preserve P this"
  shows "run_preserves P
      (if \<not> needsClientLayout (diagramConfiguration this)
       then bnd (invoke IsDirty (isDirty (commandStack this))) (\<lambda>dirty.
            ret (result1 @ [SetDirtyStateAction dirty reason]))
       else ret result1)"
proof -
  have dirty: "run_preserves P (invoke IsDirty (isDirty (commandStack this)))"
    using assms by (intro run_preserves_invoke) (simp add: services_preserve_def)
  have "run_preserves P (bnd (invoke IsDirty (isDirty (commandStack this))) (\<lambda>dirty.
            ret (result1 @ [SetDirtyStateAction dirty reason])))"
    by (intro run_preserves_bnd dirty run_preserves_ret)
  then show ?thesis by (simp add: run_preserves_ret)
qed

lemma run_preserves_validate_step:
  assumes "services_preserve P this"
  shows "run_preserves P
      (case validator this of
         Some v \<Rightarrow>
           bnd (read root) (\<lambda>r.
           bnd (await Validate (validate v [r] LIVE)) (\<lambda>markers.
           ret (result2 @ [SetMarkersAction markers LIVE])))
       | None \<Rightarrow> ret result2)"
proof (cases "validator this")
  case None
  then show ?thesis by (simp add: run_preserves_ret)
next
  case (Some v)
  have aw: "run_preserves P (await Validate (validate v [r] LIVE))" for r
    using assms Some by (intro run_preserves_await) (simp add: services_preserve_def)
  have "run_preserves P (bnd (read root) (\<lambda>r.
           bnd (await Validate (validate v [r] LIVE)) (\<lambda>markers.
           ret (result2 @ [SetMarkersAction markers LIVE]))))"
    by (intro run_preserves_bnd run_preserves_read aw run_preserves_ret)
  with Some show ?thesis by simp
qed

lemma run_preserves_submitModelDirectly:
  assumes "services_preserve P this"
  shows "run_preserves P (submitModelDirectly this reason)"
  unfolding submitModelDirectly_def
  apply (rule run_preserves_bnd)
   apply (rule run_preserves_serializeGModel[OF assms])
  apply (rule run_preserves_bnd)
   apply (rule run_preserves_layout_step[OF assms])
  apply (rule run_preserves_bnd)
   apply (rule run_preserves_ret)
  apply (rule run_preserves_bnd)
   apply (rule run_preserves_dirty_step[OF assms])
  apply (rule run_preserves_validate_step[OF assms])
  done

lemma run_preserves_after_increment:
  assumes "services_preserve P this"
  shows "run_preserves P
     (bnd (serializeGModel this) (\<lambda>rt.
      if needsClientLayout (diagramConfiguration this)
      then bnd (invoke IsDirty (isDirty (commandStack this))) (\<lambda>dirty.
           ret [RequestBoundsAction rt, SetDirtyStateAction dirty reason])
      else ret [SetModelAction rt]))"
proof -
  have dirty: "run_preserves P (invoke IsDirty (isDirty (commandStack this)))"
    using assms by (intro run_preserves_invoke) (simp add: services_preserve_def)
  show ?thesis
  proof (cases "needsClientLayout (diagramConfiguration this)")
    case True
    then show ?thesis
      by (simp only: if_True)
         (intro run_preserves_bnd run_preserves_serializeGModel assms dirty run_preserves_ret)
  next
    case False
    then show ?thesis
      by (simp only: if_False)
         (intro run_preserves_bnd run_preserves_serializeGModel assms run_preserves_ret)
  qed
qed

lemma submitModel_after_createModel:
  "createModel (modelFactory this) s = (Inr u, s1) \<Longrightarrow>
   submitModel this reason (s, t) =
     bnd (serializeGModel this) (\<lambda>rt.
      if needsClientLayout (diagramConfiguration this)
      then bnd (invoke IsDirty (isDirty (commandStack this))) (\<lambda>dirty.
           ret [RequestBoundsAction rt, SetDirtyStateAction dirty reason])
      else ret [SetModelAction rt]) (increment_revision s1, t @ [Invoke CreateModel])"
  by (simp add: submitModel_def bnd_def invoke_def assign_def)

lemma submitModel_createModel_raises:
  "createModel (modelFactory this) s = (Inl e, s1) \<Longrightarrow>
   submitModel this reason (s, t) = (Inl e, s1, t @ [Invoke CreateModel, Raise CreateModel e])"
  by (simp add: submitModel_def bnd_def invoke_def)


subsection \<open>Runs of the concrete handlers\<close>

lemma plain_submitModelDirectly_0:
  "submitModelDirectly (plainHandler WorkflowDiagramConfiguration False False) None
     (stateWithRevision (Some (int_number 0)), []) =
   (Inr [SetModelAction \<lparr>schema_revision = Some (int_number 0)\<rparr>], stateWithRevision (Some (int_number 0)),
    [Invoke CreateSchema])"
  by (simp add: submitModelDirectly_def run_defs plain_defs)

lemma plain_submitModelDirectly_1:
  "submitModelDirectly (plainHandler WorkflowDiagramConfiguration False False) None
     (stateWithRevision (Some (int_number 1)), []) =
   (Inr [UpdateModelAction \<lparr>schema_revision = Some (int_number 1)\<rparr> True], stateWithRevision (Some (int_number 1)),
    [Invoke CreateSchema])"
  by (simp add: submitModelDirectly_def run_defs plain_defs)


lemma automatic_submitModelDirectly:
  "submitModelDirectly (plainHandler automaticConfiguration True True) None
     (stateWithRevision (Some (int_number 0)), []) =
   (Inr [SetModelAction \<lparr>schema_revision = Some (int_number 0)\<rparr>, SetDirtyStateAction True None,
         SetMarkersAction [''marker''] LIVE],
    stateWithRevision (Some (int_number 0)),
    [Invoke CreateSchema, Invoke Layout, Await Layout, Invoke IsDirty, Invoke Validate,
     Await Validate])"
  by (simp add: submitModelDirectly_def run_defs plain_defs)

lemma failing_submitModelDirectly:
  "submitModelDirectly (failingHandler automaticConfiguration) None
     (stateWithRevision (Some (int_number 0)), []) =
   (Inl ''cannot serialize'', stateWithRevision (Some (int_number 0)),
    [Invoke CreateSchema, Raise CreateSchema ''cannot serialize''])"
  by (simp add: submitModelDirectly_def run_defs plain_defs)

subsection \<open>The claims\<close>

text \<open>
  C1. A call of \<^verbatim>\<open>submitModel\<close> returns a list of actions exactly when the model
  factory, the serializer and (with client layout) the dirty-state query return. With
  \<^verbatim>\<open>needsClientLayout\<close> the list is the \<^verbatim>\<open>RequestBoundsAction\<close> for the serialized root
  followed by the \<^verbatim>\<open>SetDirtyStateAction\<close> with \<^verbatim>\<open>commandStack.isDirty\<close> and the given
  reason; without it the list is the single \<^verbatim>\<open>SetModelAction\<close> for the serialized
  root. The root is serialized after the revision has been incremented. The actions are
  only returned: the calls the method makes are the model factory, the serializer and
  the dirty-state query, and nothing dispatches an action.
\<close>

theorem submitModel_result:
  "outcome (submitModel this reason (s, [])) = Inr acts \<longleftrightarrow>
     (\<exists>u s1 rt s2.
        createModel (modelFactory this) s = (Inr u, s1) \<and>
        createSchema (serializer this) (root (increment_revision s1)) (increment_revision s1)
          = (Inr rt, s2) \<and>
        (if needsClientLayout (diagramConfiguration this)
         then \<exists>dirty s3. isDirty (commandStack this) s2 = (Inr dirty, s3) \<and>
                acts = [RequestBoundsAction rt, SetDirtyStateAction dirty reason] \<and>
                events (submitModel this reason (s, [])) =
                  [Invoke CreateModel, Invoke CreateSchema, Invoke IsDirty]
         else acts = [SetModelAction rt] \<and>
              events (submitModel this reason (s, [])) =
                [Invoke CreateModel, Invoke CreateSchema]))"
  by (auto simp: submitModel_def run_defs split: prod.splits sum.splits if_splits)

theorem submitModel_result_witness:
  "outcome (submitModel (plainHandler WorkflowDiagramConfiguration False False)
      (Some ''operation'') (stateWithRevision None, [])) =
     Inr [RequestBoundsAction \<lparr>schema_revision = Some (int_number 1)\<rparr>,
          SetDirtyStateAction True (Some ''operation'')]"
  by (rule submitModel_result[THEN iffD2])
     (auto simp add: plain_defs increment_revision_def submitModel_def run_defs)

text \<open>
  C2. \<^verbatim>\<open>submitModel\<close> awaits nothing, in any run. The results \<^verbatim>\<open>submitModelDirectly\<close>
  awaits are, in this order, the layout computation when \<^verbatim>\<open>layoutKind\<close> is AUTOMATIC
  and a layout engine is bound, and the validation when a validator is bound: every run
  awaits an initial part of that list and nothing else, and a run that returns its
  actions awaits all of it.
\<close>

theorem awaited_steps:
  "awaited (events (submitModel this reason (s, []))) = [] \<and>
   prefix (awaited (events (submitModelDirectly this reason (s, []))))
     ((if layoutKind (diagramConfiguration this) = AUTOMATIC \<and> layoutEngine this \<noteq> None
       then [Layout] else []) @
      (if validator this \<noteq> None then [Validate] else [])) \<and>
   (\<forall>acts. outcome (submitModelDirectly this reason (s, [])) = Inr acts \<longrightarrow>
      awaited (events (submitModelDirectly this reason (s, []))) =
        (if layoutKind (diagramConfiguration this) = AUTOMATIC \<and> layoutEngine this \<noteq> None
         then [Layout] else []) @
        (if validator this \<noteq> None then [Validate] else []))"
  apply (cases "layoutKind (diagramConfiguration this) = AUTOMATIC"; cases "layoutEngine this";
      cases "validator this"; cases "needsClientLayout (diagramConfiguration this)")
  apply (simp_all add: submitModel_def submitModelDirectly_def run_defs
      split: prod.splits sum.splits)
  done

theorem awaited_steps_witness:
  "outcome (submitModelDirectly
      (plainHandler automaticConfiguration True True) None (stateWithRevision (Some (int_number 0)), [])) =
     Inr [SetModelAction \<lparr>schema_revision = Some (int_number 0)\<rparr>, SetDirtyStateAction True None,
          SetMarkersAction [''marker''] LIVE] \<and>
   awaited (events (submitModelDirectly
      (plainHandler automaticConfiguration True True) None (stateWithRevision (Some (int_number 0)), []))) = [Layout, Validate] \<and>
   awaited (events (submitModel
      (plainHandler automaticConfiguration True True) None (stateWithRevision (Some (int_number 0)), []))) = []"
proof -
  have h: "outcome (submitModelDirectly
      (plainHandler automaticConfiguration True True) None (stateWithRevision (Some (int_number 0)), [])) =
     Inr [SetModelAction \<lparr>schema_revision = Some (int_number 0)\<rparr>, SetDirtyStateAction True None,
          SetMarkersAction [''marker''] LIVE]"
    by (simp add: automatic_submitModelDirectly outcome_def)
  have c: "layoutKind (diagramConfiguration (plainHandler automaticConfiguration True True))
        = AUTOMATIC \<and>
      layoutEngine (plainHandler automaticConfiguration True True)
        \<noteq> None \<and>
      validator (plainHandler automaticConfiguration True True)
        \<noteq> None"
    by (simp add: plainHandler_def automaticConfiguration_def)
  from awaited_steps[of "plainHandler automaticConfiguration True True" None
      "stateWithRevision (Some (int_number 0))"] h c
  show ?thesis by simp
qed

text \<open>
  C3, as stated, fails: two runs of \<^verbatim>\<open>submitModelDirectly\<close> of one handler, so with the
  same \<^verbatim>\<open>needsClientLayout\<close>, no validator and no layout engine in both, emit different
  kinds: \<^verbatim>\<open>setModel\<close> when the serialized root has revision 0, \<^verbatim>\<open>updateModel\<close> when
  it has revision 1.
\<close>

theorem kinds_depend_on_revision:
  "outcome (submitModelDirectly (plainHandler WorkflowDiagramConfiguration False False) None
     (stateWithRevision (Some (int_number 0)), [])) = Inr [SetModelAction \<lparr>schema_revision = Some (int_number 0)\<rparr>] \<and>
   outcome (submitModelDirectly (plainHandler WorkflowDiagramConfiguration False False) None
     (stateWithRevision (Some (int_number 1)), [])) = Inr [UpdateModelAction \<lparr>schema_revision = Some (int_number 1)\<rparr> True] \<and>
   map kind [SetModelAction \<lparr>schema_revision = Some (int_number 0)\<rparr> :: (unit GModelRootSchema_scheme, string) Action] \<noteq>
   map kind [UpdateModelAction \<lparr>schema_revision = Some (int_number 1)\<rparr> True :: (unit GModelRootSchema_scheme, string) Action]"
  by (simp add: plain_submitModelDirectly_0 plain_submitModelDirectly_1 outcome_def)


text \<open>
  C3, amended. For two runs that return their actions: the kinds emitted by
  \<^verbatim>\<open>submitModel\<close> are the same when the runs agree on \<^verbatim>\<open>needsClientLayout\<close>; the kinds
  emitted by \<^verbatim>\<open>submitModelDirectly\<close> are the same when the runs agree on
  \<^verbatim>\<open>needsClientLayout\<close>, on whether a validator is bound, and on whether the revision of
  the serialized root is 0. Whether a layout engine is bound has no influence.
\<close>

theorem notification_kinds_determined:
  "(outcome (submitModel this1 reason1 (s1, [])) = Inr acts1 \<and>
    outcome (submitModel this2 reason2 (s2, [])) = Inr acts2 \<and>
    needsClientLayout (diagramConfiguration this1) = needsClientLayout (diagramConfiguration this2)
    \<longrightarrow> map kind acts1 = map kind acts2) \<and>
   (outcome (submitModelDirectly this1 reason1 (s1, [])) = Inr dacts1 \<and>
    outcome (submitModelDirectly this2 reason2 (s2, [])) = Inr dacts2 \<and>
    needsClientLayout (diagramConfiguration this1) = needsClientLayout (diagramConfiguration this2) \<and>
    (validator this1 = None \<longleftrightarrow> validator this2 = None) \<and>
    createSchema (serializer this1) (root s1) s1 = (Inr rt1, s1') \<and>
    createSchema (serializer this2) (root s2) s2 = (Inr rt2, s2') \<and>
    (schema_revision rt1 = Some (int_number 0) \<longleftrightarrow> schema_revision rt2 = Some (int_number 0))
    \<longrightarrow> map kind dacts1 = map kind dacts2)"
proof (intro conjI impI)
  assume a: "outcome (submitModel this1 reason1 (s1, [])) = Inr acts1 \<and>
    outcome (submitModel this2 reason2 (s2, [])) = Inr acts2 \<and>
    needsClientLayout (diagramConfiguration this1) = needsClientLayout (diagramConfiguration this2)"
  from a have "map kind acts1 =
     (if needsClientLayout (diagramConfiguration this1)
      then [''requestBounds'', ''setDirtyState''] else [''setModel''])"
    by (intro kinds_submitModel[of this1 reason1 s1]) simp
  moreover from a have "map kind acts2 =
     (if needsClientLayout (diagramConfiguration this2)
      then [''requestBounds'', ''setDirtyState''] else [''setModel''])"
    by (intro kinds_submitModel[of this2 reason2 s2]) simp
  ultimately show "map kind acts1 = map kind acts2"
    using a by simp
next
  assume a: "outcome (submitModelDirectly this1 reason1 (s1, [])) = Inr dacts1 \<and>
    outcome (submitModelDirectly this2 reason2 (s2, [])) = Inr dacts2 \<and>
    needsClientLayout (diagramConfiguration this1) = needsClientLayout (diagramConfiguration this2) \<and>
    (validator this1 = None \<longleftrightarrow> validator this2 = None) \<and>
    createSchema (serializer this1) (root s1) s1 = (Inr rt1, s1') \<and>
    createSchema (serializer this2) (root s2) s2 = (Inr rt2, s2') \<and>
    (schema_revision rt1 = Some (int_number 0) \<longleftrightarrow> schema_revision rt2 = Some (int_number 0))"
  then have "map kind dacts1 =
     (if schema_revision rt1 = Some (int_number 0) then ''setModel'' else ''updateModel'') #
     (if needsClientLayout (diagramConfiguration this1) then [] else [''setDirtyState'']) @
     (if validator this1 = None then [] else [''setMarkers''])"
    by (intro kinds_submitModelDirectly[of this1 reason1 s1 dacts1 rt1 s1']) simp_all
  moreover from a have "map kind dacts2 =
     (if schema_revision rt2 = Some (int_number 0) then ''setModel'' else ''updateModel'') #
     (if needsClientLayout (diagramConfiguration this2) then [] else [''setDirtyState'']) @
     (if validator this2 = None then [] else [''setMarkers''])"
    by (intro kinds_submitModelDirectly[of this2 reason2 s2 dacts2 rt2 s2']) simp_all
  ultimately show "map kind dacts1 = map kind dacts2"
    using a by simp
qed


theorem notification_kinds_determined_witness:
  "outcome (submitModelDirectly (plainHandler WorkflowDiagramConfiguration False False) None
     (stateWithRevision (Some (int_number 1)), [])) = Inr [UpdateModelAction \<lparr>schema_revision = Some (int_number 1)\<rparr> True] \<and>
   outcome (submitModelDirectly (plainHandler WorkflowDiagramConfiguration True False)
     (Some ''undo'') (stateWithRevision (Some (int_number 2)), [])) =
       Inr [UpdateModelAction \<lparr>schema_revision = Some (int_number 2)\<rparr> True] \<and>
   outcome (submitModel (plainHandler WorkflowDiagramConfiguration False False) None
     (stateWithRevision (Some (int_number 1)), [])) =
       Inr [RequestBoundsAction \<lparr>schema_revision = Some (int_number 2)\<rparr>, SetDirtyStateAction True None] \<and>
   outcome (submitModel (plainHandler WorkflowDiagramConfiguration True False) (Some ''undo'')
     (stateWithRevision (Some (int_number 2)), [])) =
       Inr [RequestBoundsAction \<lparr>schema_revision = Some (int_number 3)\<rparr>,
            SetDirtyStateAction True (Some ''undo'')] \<and>
   map kind [UpdateModelAction \<lparr>schema_revision = Some (int_number 1)\<rparr> True
               :: (unit GModelRootSchema_scheme, string) Action] =
   map kind [UpdateModelAction \<lparr>schema_revision = Some (int_number 2)\<rparr> True
               :: (unit GModelRootSchema_scheme, string) Action] \<and>
   map kind [RequestBoundsAction \<lparr>schema_revision = Some (int_number 2)\<rparr>, SetDirtyStateAction True None
               :: (unit GModelRootSchema_scheme, string) Action] =
   map kind [RequestBoundsAction \<lparr>schema_revision = Some (int_number 3)\<rparr>,
             SetDirtyStateAction True (Some ''undo'')
               :: (unit GModelRootSchema_scheme, string) Action]"
proof -
  have d1: "outcome (submitModelDirectly (plainHandler WorkflowDiagramConfiguration False False)
      None (stateWithRevision (Some (int_number 1)), [])) =
      Inr [UpdateModelAction \<lparr>schema_revision = Some (int_number 1)\<rparr> True]"
    by (simp add: plain_submitModelDirectly_1 outcome_def)
  have d2: "outcome (submitModelDirectly (plainHandler WorkflowDiagramConfiguration True False)
      (Some ''undo'') (stateWithRevision (Some (int_number 2)), [])) =
      Inr [UpdateModelAction \<lparr>schema_revision = Some (int_number 2)\<rparr> True]"
    by (simp add: submitModelDirectly_def run_defs plain_defs)
  have m1: "outcome (submitModel (plainHandler WorkflowDiagramConfiguration False False) None
     (stateWithRevision (Some (int_number 1)), [])) =
       Inr [RequestBoundsAction \<lparr>schema_revision = Some (int_number 2)\<rparr>, SetDirtyStateAction True None]"
    by (simp add: submitModel_def run_defs plain_defs increment_revision_def)
  have m2: "outcome (submitModel (plainHandler WorkflowDiagramConfiguration True False)
     (Some ''undo'') (stateWithRevision (Some (int_number 2)), [])) =
       Inr [RequestBoundsAction \<lparr>schema_revision = Some (int_number 3)\<rparr>,
            SetDirtyStateAction True (Some ''undo'')]"
    by (simp add: submitModel_def run_defs plain_defs increment_revision_def)
  have c1: "createSchema (serializer (plainHandler WorkflowDiagramConfiguration False False))
      (root (stateWithRevision (Some (int_number 1)))) (stateWithRevision (Some (int_number 1))) =
      (Inr \<lparr>schema_revision = Some (int_number 1)\<rparr>, stateWithRevision (Some (int_number 1)))"
    by (simp add: plain_defs)
  have c2: "createSchema (serializer (plainHandler WorkflowDiagramConfiguration True False))
      (root (stateWithRevision (Some (int_number 2)))) (stateWithRevision (Some (int_number 2))) =
      (Inr \<lparr>schema_revision = Some (int_number 2)\<rparr>, stateWithRevision (Some (int_number 2)))"
    by (simp add: plain_defs)
  have f: "needsClientLayout (diagramConfiguration
        (plainHandler WorkflowDiagramConfiguration False False)) =
      needsClientLayout (diagramConfiguration
        (plainHandler WorkflowDiagramConfiguration True False))"
    and v: "validator (plainHandler WorkflowDiagramConfiguration False False) = None \<longleftrightarrow>
       validator (plainHandler WorkflowDiagramConfiguration True False) = None"
    by (simp_all add: plain_defs)
  note inst = notification_kinds_determined
    [where ?this1.0 = "plainHandler WorkflowDiagramConfiguration False False"
       and ?this2.0 = "plainHandler WorkflowDiagramConfiguration True False"
       and ?reason1.0 = None and ?reason2.0 = "Some ''undo''"
       and ?s1.0 = "stateWithRevision (Some (int_number 1))" and ?s2.0 = "stateWithRevision (Some (int_number 2))"
       and ?rt1.0 = "\<lparr>schema_revision = Some (int_number 1)\<rparr>"
       and ?rt2.0 = "\<lparr>schema_revision = Some (int_number 2)\<rparr>"
       and ?s1' = "stateWithRevision (Some (int_number 1))" and ?s2' = "stateWithRevision (Some (int_number 2))"]
  have a: "map kind [UpdateModelAction \<lparr>schema_revision = Some (int_number 1)\<rparr> True
               :: (unit GModelRootSchema_scheme, string) Action] =
      map kind [UpdateModelAction \<lparr>schema_revision = Some (int_number 2)\<rparr> True
               :: (unit GModelRootSchema_scheme, string) Action]"
    by (rule inst[THEN conjunct2, THEN mp])
       (use d1 d2 c1 c2 f v in \<open>simp add: int_number_eq_iff\<close>)
  have b: "map kind [RequestBoundsAction \<lparr>schema_revision = Some (int_number 2)\<rparr>,
             SetDirtyStateAction True None :: (unit GModelRootSchema_scheme, string) Action] =
      map kind [RequestBoundsAction \<lparr>schema_revision = Some (int_number 3)\<rparr>,
             SetDirtyStateAction True (Some ''undo'')
               :: (unit GModelRootSchema_scheme, string) Action]"
    by (rule inst[THEN conjunct1, THEN mp]) (use m1 m2 f in simp)
  show ?thesis using d1 d2 m1 m2 a b by simp
qed

text \<open>
  C7. Neither method catches or retries. A run of either method raises a value exactly
  when a framework call made in that run raised that very value; at most one call
  raises in a run, and no service is called twice.
\<close>

theorem errors_propagate:
  "(outcome (submitModel this reason (s, [])) = Inl e \<longleftrightarrow>
      e \<in> set (raised (events (submitModel this reason (s, []))))) \<and>
   (outcome (submitModelDirectly this reason (s, [])) = Inl e \<longleftrightarrow>
      e \<in> set (raised (events (submitModelDirectly this reason (s, []))))) \<and>
   length (raised (events (submitModel this reason (s, [])))) \<le> 1 \<and>
   length (raised (events (submitModelDirectly this reason (s, [])))) \<le> 1 \<and>
   distinct (invoked (events (submitModel this reason (s, [])))) \<and>
   distinct (invoked (events (submitModelDirectly this reason (s, []))))"
proof -
  obtain r1 s1 where cm: "createModel (modelFactory this) s = (r1, s1)"
    by (cases "createModel (modelFactory this) s")
  obtain r2 s2 where
    cs: "createSchema (serializer this) (root (increment_revision s1)) (increment_revision s1)
               = (r2, s2)"
    by (cases "createSchema (serializer this) (root (increment_revision s1)) (increment_revision s1)")
  obtain r3 s3 where d: "isDirty (commandStack this) s2 = (r3, s3)"
    by (cases "isDirty (commandStack this) s2")
  have m: "(outcome (submitModel this reason (s, [])) = Inl e \<longleftrightarrow>
      e \<in> set (raised (events (submitModel this reason (s, []))))) \<and>
      length (raised (events (submitModel this reason (s, [])))) \<le> 1 \<and>
      distinct (invoked (events (submitModel this reason (s, []))))"
    unfolding submitModel_run[OF cm cs d] outcome_def events_def
    by (cases r1; cases r2; cases r3; cases "needsClientLayout (diagramConfiguration this)")
       auto
  have d: "(outcome (submitModelDirectly this reason (s, [])) = Inl e \<longleftrightarrow>
      e \<in> set (raised (events (submitModelDirectly this reason (s, []))))) \<and>
      length (raised (events (submitModelDirectly this reason (s, [])))) \<le> 1 \<and>
      distinct (invoked (events (submitModelDirectly this reason (s, []))))"
    apply (cases "layoutKind (diagramConfiguration this) = AUTOMATIC"; cases "layoutEngine this";
        cases "validator this"; cases "needsClientLayout (diagramConfiguration this)")
    apply (auto simp add: submitModelDirectly_def run_defs split: prod.splits sum.splits)
    done
  from m d show ?thesis by simp
qed

theorem errors_propagate_witness:
  "outcome (submitModelDirectly (failingHandler automaticConfiguration) None
     (stateWithRevision (Some (int_number 0)), [])) = Inl ''cannot serialize'' \<and>
   raised (events (submitModelDirectly (failingHandler automaticConfiguration) None
     (stateWithRevision (Some (int_number 0)), []))) = [''cannot serialize'']"
proof -
  have r: "raised (events (submitModelDirectly (failingHandler automaticConfiguration) None
     (stateWithRevision (Some (int_number 0)), []))) = [''cannot serialize'']"
    by (simp add: failing_submitModelDirectly events_def)
  have "outcome (submitModelDirectly (failingHandler automaticConfiguration) None
     (stateWithRevision (Some (int_number 0)), [])) = Inl ''cannot serialize''"
    by (rule errors_propagate[THEN conjunct2, THEN conjunct1, THEN iffD2]) (simp add: r)
  with r show ?thesis by simp
qed

text \<open>
  C8, as stated, fails. At revision \<^verbatim>\<open>2^53\<close> a call of \<^verbatim>\<open>submitModel\<close> whose services
  all return leaves the revision at \<^verbatim>\<open>2^53\<close>: the double nearest to \<^verbatim>\<open>2^53 + 1\<close> is
  \<^verbatim>\<open>2^53\<close>. And a call whose model factory raises ends before the assignment, so the
  revision 5 stays 5.
\<close>

theorem revision_not_incremented:
  "js_add (int_number 9007199254740992) (int_number 1) = int_number 9007199254740992 \<and>
   final_state (submitModel (plainHandler WorkflowDiagramConfiguration True True) None
     (stateWithRevision (Some (int_number 9007199254740992)), [])) =
     stateWithRevision (Some (int_number 9007199254740992)) \<and>
   final_state (submitModel (raisingFactoryHandler WorkflowDiagramConfiguration) None
     (stateWithRevision (Some (int_number 5)), [])) = stateWithRevision (Some (int_number 5))"
  by (simp add: submitModel_def run_defs plain_defs increment_revision_def)

text \<open>
  C8, amended. In a call of \<^verbatim>\<open>submitModel\<close> in which the model factory returns, the one
  write to the model state is the assignment to \<^verbatim>\<open>root.revision\<close> of the double sum
  \<^verbatim>\<open>(revision ?? 0) + 1\<close>, taken from the revision the factory left; every other field
  keeps the value the factory left. When that revision is absent or a safe integer
  \<open>n\<close> (of magnitude at most \<^verbatim>\<open>2^53 - 1\<close>), the new revision is exactly \<open>n + 1\<close>, with
  \<open>n = 0\<close> when absent. \<^verbatim>\<open>submitModelDirectly\<close> writes nothing. This is stated for any
  property \<open>P\<close> of the model state that the services called afterwards preserve: if \<open>P\<close>
  holds of the state with the new revision, it holds when \<^verbatim>\<open>submitModel\<close> is done; if it
  holds when \<^verbatim>\<open>submitModelDirectly\<close> starts, it holds when it is done. With services
  that leave the model state alone, \<open>P\<close> can be "is this very state". A call in which
  the model factory raises ends in the state the factory left.
\<close>

theorem revision_frame:
  "services_preserve P this \<Longrightarrow>
   (\<forall>u s1. createModel (modelFactory this) s = (Inr u, s1) \<longrightarrow>
      P (s1\<lparr>root := (root s1)\<lparr>revision :=
           Some (js_add (case revision (root s1) of None \<Rightarrow> int_number 0 | Some r \<Rightarrow> r)
                   (int_number 1))\<rparr>\<rparr>) \<longrightarrow>
      P (final_state (submitModel this reason (s, [])))) \<and>
   (\<forall>u s1 n. createModel (modelFactory this) s = (Inr u, s1) \<longrightarrow>
      (revision (root s1) = None \<and> n = 0 \<or>
       revision (root s1) = Some (int_number n) \<and> \<bar>n\<bar> \<le> 2 ^ 53 - 1) \<longrightarrow>
      P (s1\<lparr>root := (root s1)\<lparr>revision := Some (int_number (n + 1))\<rparr>\<rparr>) \<longrightarrow>
      P (final_state (submitModel this reason (s, [])))) \<and>
   (\<forall>e s1. createModel (modelFactory this) s = (Inl e, s1) \<longrightarrow>
      final_state (submitModel this reason (s, [])) = s1) \<and>
   (P s \<longrightarrow> P (final_state (submitModelDirectly this reason (s, []))))"
proof (intro conjI allI impI)
  fix u s1
  assume sp: "services_preserve P this"
    and cm: "createModel (modelFactory this) s = (Inr u, s1)"
    and P1: "P (s1\<lparr>root := (root s1)\<lparr>revision :=
           Some (js_add (case revision (root s1) of None \<Rightarrow> int_number 0 | Some r \<Rightarrow> r)
                   (int_number 1))\<rparr>\<rparr>)"
  from P1 have "P (increment_revision s1)" by (simp add: increment_revision_def)
  with run_preserves_after_increment[OF sp, of reason]
  show "P (final_state (submitModel this reason (s, [])))"
    unfolding submitModel_after_createModel[OF cm] by (rule run_preservesD)
next
  fix u s1 n
  assume sp: "services_preserve P this"
    and cm: "createModel (modelFactory this) s = (Inr u, s1)"
    and safe: "revision (root s1) = None \<and> n = 0 \<or>
       revision (root s1) = Some (int_number n) \<and> \<bar>n\<bar> \<le> 2 ^ 53 - 1"
    and P1: "P (s1\<lparr>root := (root s1)\<lparr>revision := Some (int_number (n + 1))\<rparr>\<rparr>)"
  from safe have bound: "\<bar>n + 1\<bar> \<le> 2 ^ 53" by auto
  from safe have "(case revision (root s1) of None \<Rightarrow> int_number 0 | Some r \<Rightarrow> r) = int_number n"
    by auto
  then have "increment_revision s1 =
      s1\<lparr>root := (root s1)\<lparr>revision := Some (int_number (n + 1))\<rparr>\<rparr>"
    by (simp add: increment_revision_def js_add_int_number[OF bound])
  with P1 have "P (increment_revision s1)" by simp
  with run_preserves_after_increment[OF sp, of reason]
  show "P (final_state (submitModel this reason (s, [])))"
    unfolding submitModel_after_createModel[OF cm] by (rule run_preservesD)
next
  fix e s1
  assume "createModel (modelFactory this) s = (Inl e, s1)"
  then show "final_state (submitModel this reason (s, [])) = s1"
    by (simp add: submitModel_createModel_raises final_state_def)
next
  assume "services_preserve P this" and "P s"
  then show "P (final_state (submitModelDirectly this reason (s, [])))"
    by (rule run_preservesD[OF run_preserves_submitModelDirectly])
qed

theorem revision_frame_witness:
  "services_preserve (\<lambda>x. x = stateWithRevision (Some (int_number 6)))
     (plainHandler WorkflowDiagramConfiguration True True) \<and>
   services_preserve (\<lambda>x. x = stateWithRevision (Some (int_number 1)))
     (plainHandler automaticConfiguration True True) \<and>
   services_preserve (\<lambda>x. x = stateWithRevision (Some (int_number 5)))
     (raisingFactoryHandler WorkflowDiagramConfiguration) \<and>
   \<bar>5::int\<bar> \<le> 2 ^ 53 - 1 \<and>
   final_state (submitModel (plainHandler WorkflowDiagramConfiguration True True) None
     (stateWithRevision (Some (int_number 5)), [])) = stateWithRevision (Some (int_number 6)) \<and>
   final_state (submitModel (plainHandler automaticConfiguration True True) None
     (stateWithRevision None, [])) = stateWithRevision (Some (int_number 1)) \<and>
   final_state (submitModel (raisingFactoryHandler WorkflowDiagramConfiguration) None
     (stateWithRevision (Some (int_number 5)), [])) = stateWithRevision (Some (int_number 5)) \<and>
   final_state (submitModelDirectly (plainHandler WorkflowDiagramConfiguration True True) None
     (stateWithRevision (Some (int_number 6)), [])) = stateWithRevision (Some (int_number 6))"
proof -
  have sp: "services_preserve (\<lambda>x. x = stateWithRevision (Some (int_number 6)))
      (plainHandler WorkflowDiagramConfiguration True True)"
    by (simp add: services_preserve_def preserves_def preserves_awaited_def plainHandler_def)
  have sp1: "services_preserve (\<lambda>x. x = stateWithRevision (Some (int_number 1)))
      (plainHandler automaticConfiguration True True)"
    by (simp add: services_preserve_def preserves_def preserves_awaited_def plainHandler_def)
  have sp5: "services_preserve (\<lambda>x. x = stateWithRevision (Some (int_number 5)))
      (raisingFactoryHandler WorkflowDiagramConfiguration)"
    by (simp add: services_preserve_def preserves_def preserves_awaited_def plainHandler_def
        raisingFactoryHandler_def)
  have safe: "\<bar>5::int\<bar> \<le> 2 ^ 53 - 1" by simp
  have cm: "createModel (modelFactory (plainHandler WorkflowDiagramConfiguration True True))
      (stateWithRevision (Some (int_number 5))) = (Inr (), stateWithRevision (Some (int_number 5)))"
    by (simp add: plainHandler_def)
  have cm1: "createModel (modelFactory (plainHandler automaticConfiguration True True))
      (stateWithRevision None) = (Inr (), stateWithRevision None)"
    by (simp add: plainHandler_def)
  have cm5: "createModel (modelFactory (raisingFactoryHandler WorkflowDiagramConfiguration))
      (stateWithRevision (Some (int_number 5))) =
      (Inl ''cannot create'', stateWithRevision (Some (int_number 5)))"
    by (simp add: raisingFactoryHandler_def)
  note f = revision_frame[OF sp, of "stateWithRevision (Some (int_number 5))" None]
  from f[THEN conjunct2, THEN conjunct1, rule_format, OF cm, of 5] safe
  have a: "final_state (submitModel (plainHandler WorkflowDiagramConfiguration True True) None
     (stateWithRevision (Some (int_number 5)), [])) = stateWithRevision (Some (int_number 6))"
    by (simp add: stateWithRevision_def)
  note f1 = revision_frame[OF sp1, of "stateWithRevision None" None]
  from f1[THEN conjunct2, THEN conjunct1, rule_format, OF cm1, of 0]
  have a1: "final_state (submitModel (plainHandler automaticConfiguration True True) None
     (stateWithRevision None, [])) = stateWithRevision (Some (int_number 1))"
    by (simp add: stateWithRevision_def)
  from revision_frame[OF sp5, of "stateWithRevision (Some (int_number 5))" None] cm5
  have a5: "final_state (submitModel (raisingFactoryHandler WorkflowDiagramConfiguration) None
     (stateWithRevision (Some (int_number 5)), [])) = stateWithRevision (Some (int_number 5))"
    by simp
  from revision_frame[OF sp, of "stateWithRevision (Some (int_number 6))" None]
  have b: "final_state (submitModelDirectly (plainHandler WorkflowDiagramConfiguration True True)
     None (stateWithRevision (Some (int_number 6)), [])) = stateWithRevision (Some (int_number 6))"
    by simp
  from sp sp1 sp5 safe a a1 a5 b show ?thesis by simp
qed

text \<open>
  C9. When \<^verbatim>\<open>submitModelDirectly\<close> returns, the list starts with the action that sets
  the model: a \<^verbatim>\<open>SetModelAction\<close> for the serialized root when its revision is 0, and
  otherwise an \<^verbatim>\<open>UpdateModelAction\<close> whose \<^verbatim>\<open>animate\<close> is the configuration's
  \<^verbatim>\<open>animatedUpdate\<close>. A \<^verbatim>\<open>SetDirtyStateAction\<close> with the given reason follows exactly
  when \<^verbatim>\<open>needsClientLayout\<close> is false, and a \<^verbatim>\<open>SetMarkersAction\<close> with reason LIVE
  comes last exactly when a validator is bound. The list has one to three elements.
\<close>

theorem submitModelDirectly_result:
  "outcome (submitModelDirectly this reason (s, [])) = Inr acts \<Longrightarrow>
   \<exists>rt s1 dirty markers.
     createSchema (serializer this) (root s) s = (Inr rt, s1) \<and>
     acts =
       (if schema_revision rt = Some (int_number 0) then SetModelAction rt
        else UpdateModelAction rt (animatedUpdate (diagramConfiguration this))) #
       (if needsClientLayout (diagramConfiguration this) then []
        else [SetDirtyStateAction dirty reason]) @
       (if validator this = None then [] else [SetMarkersAction markers LIVE]) \<and>
     1 \<le> length acts \<and> length acts \<le> 3"
  apply (cases "layoutKind (diagramConfiguration this) = AUTOMATIC"; cases "layoutEngine this";
      cases "validator this"; cases "needsClientLayout (diagramConfiguration this)")
  apply (auto simp add: submitModelDirectly_def run_defs split: prod.splits sum.splits)
  done

theorem submitModelDirectly_result_witness:
  "outcome (submitModelDirectly (plainHandler automaticConfiguration True True) None
     (stateWithRevision (Some (int_number 0)), [])) =
     Inr [SetModelAction \<lparr>schema_revision = Some (int_number 0)\<rparr>, SetDirtyStateAction True None,
          SetMarkersAction [''marker''] LIVE] \<and>
   (\<exists>rt s1 dirty markers.
     createSchema (serializer (plainHandler automaticConfiguration True True))
       (root (stateWithRevision (Some (int_number 0)))) (stateWithRevision (Some (int_number 0))) = (Inr rt, s1) \<and>
     [SetModelAction \<lparr>schema_revision = Some (int_number 0)\<rparr>, SetDirtyStateAction True None,
      SetMarkersAction [''marker''] LIVE] =
       (if schema_revision rt = Some (int_number 0) then SetModelAction rt
        else UpdateModelAction rt
          (animatedUpdate (diagramConfiguration (plainHandler automaticConfiguration True True)))) #
       (if needsClientLayout (diagramConfiguration (plainHandler automaticConfiguration True True))
        then [] else [SetDirtyStateAction dirty None]) @
       (if validator (plainHandler automaticConfiguration True True) = None then []
        else [SetMarkersAction markers LIVE]))"
proof -
  have h: "outcome (submitModelDirectly (plainHandler automaticConfiguration True True) None
     (stateWithRevision (Some (int_number 0)), [])) =
     Inr [SetModelAction \<lparr>schema_revision = Some (int_number 0)\<rparr>, SetDirtyStateAction True None,
          SetMarkersAction [''marker''] LIVE]"
    by (simp add: automatic_submitModelDirectly outcome_def)
  from submitModelDirectly_result[OF h] h show ?thesis by blast
qed

text \<open>
  C10. With the three fields of \<^verbatim>\<open>WorkflowDiagramConfiguration\<close> (client layout needed,
  manual server layout, animated update): a run of \<^verbatim>\<open>submitModel\<close> returns a
  \<^verbatim>\<open>RequestBoundsAction\<close> followed by a \<^verbatim>\<open>SetDirtyStateAction\<close> with the given reason,
  unless a framework call raises; \<^verbatim>\<open>submitModelDirectly\<close> neither calls nor awaits the
  layout engine, and the list it returns has no \<^verbatim>\<open>SetDirtyStateAction\<close>.
\<close>

theorem workflow_configuration_submission:
  "diagramConfiguration this = WorkflowDiagramConfiguration \<Longrightarrow>
   (case outcome (submitModel this reason (s, [])) of
      Inr acts \<Rightarrow> \<exists>rt dirty. acts = [RequestBoundsAction rt, SetDirtyStateAction dirty reason]
    | Inl e \<Rightarrow> e \<in> set (raised (events (submitModel this reason (s, []))))) \<and>
   Layout \<notin> set (invoked (events (submitModelDirectly this reason (s, [])))) \<and>
   Layout \<notin> set (awaited (events (submitModelDirectly this reason (s, [])))) \<and>
   (\<forall>acts dirty r. outcome (submitModelDirectly this reason (s, [])) = Inr acts \<longrightarrow>
      SetDirtyStateAction dirty r \<notin> set acts)"
  apply (intro conjI)
     apply (auto simp: WorkflowDiagramConfiguration_def submitModel_def run_defs
      split: prod.splits sum.splits if_splits)[1]
    apply (auto simp: WorkflowDiagramConfiguration_def submitModelDirectly_def run_defs
      split: prod.splits sum.splits if_splits option.splits bool.splits)[1]
   apply (auto simp: WorkflowDiagramConfiguration_def submitModelDirectly_def run_defs
      split: prod.splits sum.splits if_splits option.splits bool.splits)[1]
  apply (auto simp: WorkflowDiagramConfiguration_def submitModelDirectly_def run_defs
      split: prod.splits sum.splits if_splits option.splits bool.splits)[1]
  done

theorem workflow_configuration_submission_witness:
  "diagramConfiguration (plainHandler WorkflowDiagramConfiguration True True) =
     WorkflowDiagramConfiguration \<and>
   outcome (submitModel (plainHandler WorkflowDiagramConfiguration True True) (Some ''save'')
     (stateWithRevision (Some (int_number 0)), [])) =
     Inr [RequestBoundsAction \<lparr>schema_revision = Some (int_number 1)\<rparr>,
          SetDirtyStateAction True (Some ''save'')] \<and>
   outcome (submitModelDirectly (plainHandler WorkflowDiagramConfiguration True True)
     (Some ''save'') (stateWithRevision (Some (int_number 1)), [])) =
     Inr [UpdateModelAction \<lparr>schema_revision = Some (int_number 1)\<rparr> True,
          SetMarkersAction [''marker''] LIVE] \<and>
   Layout \<notin> set (awaited (events (submitModelDirectly
     (plainHandler WorkflowDiagramConfiguration True True) (Some ''save'')
     (stateWithRevision (Some (int_number 1)), [])))) \<and>
   SetDirtyStateAction True (Some ''save'') \<notin>
     set [UpdateModelAction \<lparr>schema_revision = Some (int_number 1)\<rparr> True,
          SetMarkersAction [''marker''] LIVE
            :: (unit GModelRootSchema_scheme, string) Action]"
proof -
  have c: "diagramConfiguration (plainHandler WorkflowDiagramConfiguration True True) =
     WorkflowDiagramConfiguration"
    by (simp add: plainHandler_def)
  have m: "outcome (submitModel (plainHandler WorkflowDiagramConfiguration True True)
     (Some ''save'') (stateWithRevision (Some (int_number 0)), [])) =
     Inr [RequestBoundsAction \<lparr>schema_revision = Some (int_number 1)\<rparr>,
          SetDirtyStateAction True (Some ''save'')]"
    by (simp add: submitModel_def run_defs plain_defs increment_revision_def)
  have d: "outcome (submitModelDirectly (plainHandler WorkflowDiagramConfiguration True True)
     (Some ''save'') (stateWithRevision (Some (int_number 1)), [])) =
     Inr [UpdateModelAction \<lparr>schema_revision = Some (int_number 1)\<rparr> True,
          SetMarkersAction [''marker''] LIVE]"
    by (simp add: submitModelDirectly_def run_defs plain_defs)
  from workflow_configuration_submission[OF c, of "Some ''save''" "stateWithRevision (Some (int_number 1))"] d
  have "Layout \<notin> set (awaited (events (submitModelDirectly
      (plainHandler WorkflowDiagramConfiguration True True) (Some ''save'')
      (stateWithRevision (Some (int_number 1)), [])))) \<and>
    SetDirtyStateAction True (Some ''save'') \<notin>
      set [UpdateModelAction \<lparr>schema_revision = Some (int_number 1)\<rparr> True,
           SetMarkersAction [''marker''] LIVE
             :: (unit GModelRootSchema_scheme, string) Action]"
    by blast
  with c m d show ?thesis by simp
qed

end
